theory Spec2Isabelle
  imports Main "HOL-Library.Word"
begin

section \<open>The DDP client of ddp\_client.go\<close>

text \<open>
  The client (\<^verbatim>\<open>type Client struct\<close>) is a record; everything the client reaches
  outside its own fields (timers of package time, websocket connections, channels,
  goroutines, the callbacks of its callers) lives in a second record, the world, which
  every operation takes and returns. A panic, or the process exit of
  \<^verbatim>\<open>log.Fatal\<close>, is the left summand of the result and carries the world as it was
  when the operation stopped. Logging that does not alter control flow is left out.
\<close>

subsection \<open>Values\<close>

text \<open>What \<^verbatim>\<open>websocket.JSON.Receive\<close> decodes into an \<^verbatim>\<open>interface{}\<close>.\<close>

datatype json =
    JNull
  | JBool bool
  | JNumber int
  | JString string
  | JArray "json list"
  | JObject "(string \<times> json) list"

text \<open>An inbox message, \<^verbatim>\<open>map[string]interface{}\<close>.\<close>

type_synonym message = "string \<rightharpoonup> json"

text \<open>
  The messages the client sends. Their constructors (\<^verbatim>\<open>NewMethod\<close>, \<^verbatim>\<open>NewSub\<close>, ...)
  are declared in another file of the package; a message is kept as the constructor call
  that built it.
\<close>

datatype outgoing =
    NewConnect
  | NewReconnect string
  | NewMethod string string "json list"
  | NewSub string string "json list"
  | NewPing string
  | NewPong string

text \<open>
  A Go \<^verbatim>\<open>error\<close> value: an error with a text (what \<^verbatim>\<open>err.Error()\<close> returns), or
  whatever the websocket package returns, a \<open>TransportError\<close>.
\<close>

datatype error = ErrorString string | TransportError string

subsection \<open>fmt.Errorf\<close>

text \<open>
  The client builds its errors with \<^verbatim>\<open>fmt.Errorf(format)\<close>, always without operands.
  The argument is a format string all the same: package fmt (\<^verbatim>\<open>doPrintf\<close> in print.go
  of the Go standard library) copies it up to each percent sign and reads a directive
  there. With no operand to print, a directive yields \<^verbatim>\<open>%\<close> for \<^verbatim>\<open>%%\<close>,
  \<^verbatim>\<open>%!v(MISSING)\<close> for a verb \<^verbatim>\<open>v\<close>, \<^verbatim>\<open>%!v(BADINDEX)\<close> after an argument index,
  \<^verbatim>\<open>%!(BADWIDTH)\<close> and \<^verbatim>\<open>%!(BADPREC)\<close> for a starred width or precision, and
  \<^verbatim>\<open>%!(NOVERB)\<close> when the format ends inside the directive. Strings are byte
  strings, as in Go.
\<close>

text \<open>The flags \<^verbatim>\<open>#0+- \<close> that may follow the percent sign.\<close>

definition is_flag :: "char \<Rightarrow> bool" where
  "is_flag c \<longleftrightarrow> c \<in> {CHR ''#'', CHR ''0'', CHR ''+'', CHR ''-'', CHR '' ''}"

definition is_digit :: "char \<Rightarrow> bool" where
  "is_digit c \<longleftrightarrow> 48 \<le> (of_char c :: nat) \<and> (of_char c :: nat) \<le> 57"

text \<open>
  \<^verbatim>\<open>parsenum\<close>: a decimal number at the start of \<open>s\<close>; whether there is one, and how
  many bytes it takes. A number that grows beyond a million is given up, and the scan jumps
  to the end of \<open>s\<close>.
\<close>

fun parsenum_loop :: "nat \<Rightarrow> bool \<Rightarrow> nat \<Rightarrow> nat \<Rightarrow> string \<Rightarrow> bool \<times> nat" where
  "parsenum_loop num isnum newi end [] = (isnum, newi)"
| "parsenum_loop num isnum newi end (c # cs) =
     (if is_digit c
      then (if 1000000 < num then (False, end)
            else parsenum_loop (num * 10 + (of_char c - 48)) True (newi + 1) end cs)
      else (isnum, newi))"

definition parsenum :: "string \<Rightarrow> bool \<times> nat" where
  "parsenum s = parsenum_loop 0 False 0 (length s) s"

text \<open>
  \<^verbatim>\<open>parseArgNumber\<close> and \<^verbatim>\<open>argNumber\<close>: an argument index \<^verbatim>\<open>[n]\<close>. The result is
  the number of bytes it takes, whether it has the form \<^verbatim>\<open>[n]\<close>, and whether the
  argument number is bad; with no operands every index is out of range, so every
  bracket makes it bad.
\<close>

definition parseArgNumber :: "string \<Rightarrow> nat \<times> bool" where
  "parseArgNumber s =
     (if length s < 3 then (1, False)
      else (let inner = takeWhile (\<lambda>c. c \<noteq> CHR '']'') (tl s)
            in if length inner = length (tl s) then (1, False)
               else (let (isnum, newi) = parsenum inner
                     in (length inner + 2, isnum \<and> newi = length inner))))"

definition argNumber :: "string \<Rightarrow> nat \<times> bool \<times> bool" where
  "argNumber s =
     (case s of
        [] \<Rightarrow> (0, False, False)
      | c # cs \<Rightarrow>
          if c = CHR ''[''
          then (let (wid, ok) = parseArgNumber s in (wid, ok, True))
          else (0, False, False))"

text \<open>
  \<^verbatim>\<open>utf8.DecodeRuneInString\<close> for the verb: the size of the UTF-8 sequence at the start of
  \<open>s\<close>, 0 when there is none. The verb is written back as its own bytes, and as
  U+FFFD (one byte consumed) when the bytes are not UTF-8.
\<close>

definition cont_byte :: "char \<Rightarrow> nat \<Rightarrow> nat \<Rightarrow> bool" where
  "cont_byte c lo hi \<longleftrightarrow> lo \<le> (of_char c :: nat) \<and> (of_char c :: nat) \<le> hi"

definition rune_size :: "string \<Rightarrow> nat" where
  "rune_size s =
     (case s of
        [] \<Rightarrow> 0
      | b0 # r \<Rightarrow>
          (let x = (of_char b0 :: nat)
           in if x < 128 then 1
              else if 194 \<le> x \<and> x \<le> 223
                then (case r of b1 # _ \<Rightarrow> if cont_byte b1 128 191 then 2 else 0 | _ \<Rightarrow> 0)
              else if 224 \<le> x \<and> x \<le> 239
                then (case r of
                        b1 # b2 # _ \<Rightarrow>
                          if cont_byte b1 (if x = 224 then 160 else 128) (if x = 237 then 159 else 191)
                             \<and> cont_byte b2 128 191
                          then 3 else 0
                      | _ \<Rightarrow> 0)
              else if 240 \<le> x \<and> x \<le> 244
                then (case r of
                        b1 # b2 # b3 # _ \<Rightarrow>
                          if cont_byte b1 (if x = 240 then 144 else 128) (if x = 244 then 143 else 191)
                             \<and> cont_byte b2 128 191 \<and> cont_byte b3 128 191
                          then 4 else 0
                      | _ \<Rightarrow> 0)
              else 0))"

definition decode_verb :: "string \<Rightarrow> string \<times> nat" where
  "decode_verb s =
     (if rune_size s = 0 then ([char_of (239 :: nat), char_of (191 :: nat), char_of (189 :: nat)], 1)
      else (take (rune_size s) s, rune_size s))"

text \<open>
  One directive: \<open>s\<close> is the format after a percent sign; the result is the output
  and the number of bytes of \<open>s\<close> taken. In order: flags, argument index, width,
  precision, argument index, verb.
\<close>

definition directive :: "string \<Rightarrow> string \<times> nat" where
  "directive s =
     (let i1 = length (takeWhile is_flag s);
          (wid1, afterIndex1, bad1) = argNumber (drop i1 s);
          i2 = i1 + wid1;
          (outw, i3, afterIndex2, bad2) =
            (case drop i2 s of
               c # _ \<Rightarrow>
                 if c = CHR ''*'' then (''%!(BADWIDTH)'', i2 + 1, False, bad1)
                 else (let (isnum, n) = parsenum (drop i2 s)
                       in ([], i2 + n, afterIndex1, bad1 \<or> (afterIndex1 \<and> isnum)))
             | [] \<Rightarrow> ([], i2, afterIndex1, bad1));
          (outp, i4, afterIndex3, bad3) =
            (case drop i3 s of
               c # _ \<Rightarrow>
                 if c = CHR ''.''
                 then (let (wid2, ok2, b2) = argNumber (drop (i3 + 1) s);
                           j = i3 + 1 + wid2;
                           bad = bad2 \<or> afterIndex2 \<or> b2
                       in case drop j s of
                            d # _ \<Rightarrow>
                              if d = CHR ''*'' then (''%!(BADPREC)'', j + 1, False, bad)
                              else (let (isnum, n) = parsenum (drop j s)
                                    in ([], j + n, ok2, bad))
                          | [] \<Rightarrow> ([], j, ok2, bad))
                 else ([], i3, afterIndex2, bad2)
             | [] \<Rightarrow> ([], i3, afterIndex2, bad2));
          (i5, bad4) =
            (if afterIndex3 then (i4, bad3)
             else (let (wid3, ok3, b3) = argNumber (drop i4 s) in (i4 + wid3, bad3 \<or> b3)))
      in case drop i5 s of
           [] \<Rightarrow> (outw @ outp @ ''%!(NOVERB)'', i5)
         | c # _ \<Rightarrow>
             (let (verb, size) = decode_verb (drop i5 s)
              in if verb = ''%'' then (outw @ outp @ ''%'', i5 + size)
                 else if bad4 then (outw @ outp @ ''%!'' @ verb @ ''(BADINDEX)'', i5 + size)
                 else (outw @ outp @ ''%!'' @ verb @ ''(MISSING)'', i5 + size)))"

text \<open>\<^verbatim>\<open>fmt.Sprintf(format)\<close>, no operands.\<close>

fun Sprintf :: "string \<Rightarrow> string" where
  "Sprintf [] = []"
| "Sprintf (c # cs) =
     (if c = CHR ''%''
      then (case directive cs of (out, n) \<Rightarrow> out @ Sprintf (drop n cs))
      else c # Sprintf cs)"

text \<open>\<^verbatim>\<open>fmt.Errorf(format)\<close>, no operands: the error whose text is the formatted string.\<close>

definition Errorf :: "string \<Rightarrow> error" where
  "Errorf format = ErrorString (Sprintf format)"

subsection \<open>The client and its surroundings\<close>

datatype abort =
    TypeAssertionPanic
  | NilDereferencePanic
  | LogPanic string
  | LogFatal string

text \<open>A \<^verbatim>\<open>chan *Call\<close>: its identity and its capacity (\<^verbatim>\<open>cap(done)\<close>).\<close>

record chan =
  chan_ref :: nat
  chan_cap :: nat

text \<open>
  \<^verbatim>\<open>type Call struct\<close>, with the fields the client reads and writes. The field
  \<^verbatim>\<open>Owner\<close> always points back to the one client and is not represented.
\<close>

record call =
  ID :: string
  ServiceMethod :: string
  Args :: "json list"
  Reply :: "json option"
  Error :: "error option"
  Done :: "chan option"

text \<open>
  A ping handler is a \<^verbatim>\<open>func(error)\<close>. \<open>ReconnectOnError\<close> is the closure that
  \<^verbatim>\<open>Ping\<close> passes; \<open>Callback n\<close> is the n-th closure supplied by a caller of
  \<^verbatim>\<open>PingPong\<close>, whose body is outside the package.
\<close>

datatype handler = ReconnectOnError | Callback nat

text \<open>The closures handed to \<^verbatim>\<open>time.AfterFunc\<close>.\<close>

datatype callback = Heartbeat | PingTimeout handler | RetryReconnect

record go_timer =
  after :: int
  fn :: callback
  armed :: bool

text \<open>\<^verbatim>\<open>pingTracker\<close>, as the composite literal in \<^verbatim>\<open>PingPong\<close> fills it.\<close>

record pingTracker =
  handler :: handler
  timeout :: int
  timer :: nat

text \<open>
  A \<^verbatim>\<open>Collection\<close> is an interface whose implementations are in another file: a
  collection is kept as the call that made it, and each method call on it is recorded.
\<close>

datatype collection = NewCollection string | NewMockCollection | MadeDefault string

datatype coll_call =
    Added message
  | Changed message
  | Removed message
  | AddedBefore message
  | MovedBefore message
  | Reset

datatype goroutine = InboxManager | InboxWorker nat | ReconnectTask

record 'i Client =
  HeartbeatInterval :: int
  HeartbeatTimeout :: int
  ReconnectInterval :: int
  reconnects :: "64 word"
  session :: string
  version :: string
  serverID :: string
  ws :: "nat option"
  url :: string
  origin :: string
  pingTimer :: "nat option"
  pings :: "string \<rightharpoonup> pingTracker list"
  calls :: "string \<rightharpoonup> call"
  subs :: "string \<rightharpoonup> call"
  collections :: "string \<rightharpoonup> collection"
  idManager :: 'i

text \<open>
  The world: the client, the timers created so far, the number of channels made so far,
  what a send on each connection returns at present (\<open>link\<close>, \<open>None\<close> for success),
  and the trace of what the client did to its surroundings: every invocation of
  \<^verbatim>\<open>websocket.JSON.Send\<close>, every connection closed, every \<^verbatim>\<open>call.done()\<close>, every
  handler invocation, every method call on a collection, every goroutine started.
\<close>

record 'i world =
  client :: "'i Client"
  timers :: "nat \<rightharpoonup> go_timer"
  next_timer :: nat
  next_chan :: nat
  link :: "nat \<Rightarrow> error option"
  json_sends :: "(nat \<times> outgoing) list"
  closed :: "nat list"
  dones :: "call list"
  handled :: "(handler \<times> error option) list"
  delivered :: "(collection \<times> coll_call) list"
  goroutines :: "goroutine list"

type_synonym 'i outcome = "(abort \<times> 'i world) + 'i world"

subsection \<open>The runtime and the missing helpers\<close>

text \<open>The type assertion \<^verbatim>\<open>x.(string)\<close>; \<open>None\<close> is the nil interface.\<close>

fun string_of :: "json option \<Rightarrow> abort + string" where
  "string_of (Some (JString s)) = Inr s"
| "string_of _ = Inl TypeAssertionPanic"

definition AfterFunc :: "int \<Rightarrow> callback \<Rightarrow> 'i world \<Rightarrow> nat \<times> 'i world" where
  "AfterFunc d f w =
     (next_timer w,
      w\<lparr>timers := (timers w)(next_timer w \<mapsto> \<lparr>after = d, fn = f, armed = True\<rparr>),
        next_timer := next_timer w + 1\<rparr>)"

text \<open>\<^verbatim>\<open>t.Stop()\<close> on a timer that exists.\<close>

definition stop_timer :: "nat \<Rightarrow> 'i world \<Rightarrow> 'i world" where
  "stop_timer t w =
     (case timers w t of
        None \<Rightarrow> w
      | Some tm \<Rightarrow> w\<lparr>timers := (timers w)(t \<mapsto> tm\<lparr>armed := False\<rparr>)\<rparr>)"

text \<open>\<^verbatim>\<open>t.Reset(d)\<close> on a timer that exists.\<close>

definition reset_timer :: "nat \<Rightarrow> int \<Rightarrow> 'i world \<Rightarrow> 'i world" where
  "reset_timer t d w =
     (case timers w t of
        None \<Rightarrow> w
      | Some tm \<Rightarrow> w\<lparr>timers := (timers w)(t \<mapsto> tm\<lparr>after := d, armed := True\<rparr>)\<rparr>)"

text \<open>
  \<^verbatim>\<open>c.pingTimer.Stop()\<close> and \<^verbatim>\<open>c.pingTimer.Reset(d)\<close>: the field is a
  \<^verbatim>\<open>*time.Timer\<close> and both methods read through the pointer, so on nil they panic.
\<close>

definition timer_Stop :: "nat option \<Rightarrow> 'i world \<Rightarrow> 'i outcome" where
  "timer_Stop p w =
     (case p of None \<Rightarrow> Inl (NilDereferencePanic, w) | Some t \<Rightarrow> Inr (stop_timer t w))"

definition timer_Reset :: "nat option \<Rightarrow> int \<Rightarrow> 'i world \<Rightarrow> 'i outcome" where
  "timer_Reset p d w =
     (case p of None \<Rightarrow> Inl (NilDereferencePanic, w) | Some t \<Rightarrow> Inr (reset_timer t d w))"

text \<open>\<^verbatim>\<open>make(chan *Call, n)\<close>.\<close>

definition make_chan :: "nat \<Rightarrow> 'i world \<Rightarrow> chan \<times> 'i world" where
  "make_chan n w = (\<lparr>chan_ref = next_chan w, chan_cap = n\<rparr>, w\<lparr>next_chan := next_chan w + 1\<rparr>)"

text \<open>\<^verbatim>\<open>websocket.JSON.Send(conn, msg)\<close>.\<close>

definition JSON_Send :: "nat \<Rightarrow> outgoing \<Rightarrow> 'i world \<Rightarrow> error option \<times> 'i world" where
  "JSON_Send k m w = (link w k, w\<lparr>json_sends := json_sends w @ [(k, m)]\<rparr>)"

text \<open>
  Modelled from the spec: \<^verbatim>\<open>func (call *Call) done()\<close> is declared outside the files
  at hand. The spec has it signal the Call's single-shot completion sink, carrying the
  reply or the error; the model records the Call, as it is when signalled.
\<close>

definition done_call :: "call \<Rightarrow> 'i world \<Rightarrow> 'i world" where
  "done_call cl w = w\<lparr>dones := dones w @ [cl]\<rparr>"

text \<open>
  Calling a handler. The closure of \<^verbatim>\<open>Ping\<close> starts \<^verbatim>\<open>go c.Reconnect()\<close> on an
  error; a caller's closure is only recorded.
\<close>

definition invoke :: "handler \<Rightarrow> error option \<Rightarrow> 'i world \<Rightarrow> 'i world" where
  "invoke h e w =
     (let w1 = w\<lparr>handled := handled w @ [(h, e)]\<rparr>
      in case h of
           ReconnectOnError \<Rightarrow>
             (if e \<noteq> None then w1\<lparr>goroutines := goroutines w1 @ [ReconnectTask]\<rparr> else w1)
         | Callback n \<Rightarrow> w1)"

text \<open>A method call on a collection.\<close>

definition deliver :: "collection \<Rightarrow> coll_call \<Rightarrow> 'i world \<Rightarrow> 'i world" where
  "deliver col op w = w\<lparr>delivered := delivered w @ [(col, op)]\<rparr>"

subsection \<open>Send and Close\<close>

definition Send :: "outgoing \<Rightarrow> 'i world \<Rightarrow> error option \<times> 'i world" where
  "Send msg w =
     (case ws (client w) of
        None \<Rightarrow> (Some (Errorf ''Tried to send message on a nil socket''), w)
      | Some k \<Rightarrow> JSON_Send k msg w)"

definition Close :: "'i world \<Rightarrow> 'i outcome" where
  "Close w =
     (case timer_Stop (pingTimer (client w)) w of
        Inl a \<Rightarrow> Inl a
      | Inr w1 \<Rightarrow>
          (case ws (client w1) of
             None \<Rightarrow> Inr w1
           | Some k \<Rightarrow> Inr (w1\<lparr>closed := closed w1 @ [k], client := (client w1)\<lparr>ws := None\<rparr>\<rparr>)))"

subsection \<open>Pings\<close>

definition PingPong :: "string \<Rightarrow> int \<Rightarrow> handler \<Rightarrow> 'i world \<Rightarrow> 'i world" where
  "PingPong pid tmo h w =
     (case Send (NewPing pid) w of
        (Some err, w1) \<Rightarrow> invoke h (Some err) w1
      | (None, w1) \<Rightarrow>
          (let ps = (case pings (client w1) pid of None \<Rightarrow> [] | Some ps \<Rightarrow> ps);
               (t, w2) = AfterFunc tmo (PingTimeout h) w1;
               tracker = \<lparr>handler = h, timeout = tmo, timer = t\<rparr>
           in w2\<lparr>client := (client w2)\<lparr>pings := (pings (client w2))(pid \<mapsto> ps @ [tracker])\<rparr>\<rparr>))"

text \<open>
  \<^verbatim>\<open>newID\<close> belongs to the embedded \<^verbatim>\<open>idManager\<close>, declared in another file: it is a
  parameter, a function from the manager's state to the identifier and the next state.
\<close>

definition Ping :: "('i \<Rightarrow> string \<times> 'i) \<Rightarrow> 'i world \<Rightarrow> 'i world" where
  "Ping newID w =
     (let (i, idm) = newID (idManager (client w));
          w1 = w\<lparr>client := (client w)\<lparr>idManager := idm\<rparr>\<rparr>
      in PingPong i (HeartbeatTimeout (client w1)) ReconnectOnError w1)"

subsection \<open>Method calls and subscriptions\<close>

text \<open>The \<^verbatim>\<open>if done == nil { ... } else { if cap(done) == 0 { log.Panic(...) } }\<close> of both.\<close>

definition done_chan :: "chan option \<Rightarrow> 'i world \<Rightarrow> (abort \<times> 'i world) + (chan \<times> 'i world)" where
  "done_chan d w =
     (case d of
        None \<Rightarrow> Inr (make_chan 10 w)
      | Some ch \<Rightarrow>
          if chan_cap ch = 0 then Inl (LogPanic ''ddp.rpc: done channel is unbuffered'', w)
          else Inr (ch, w))"

definition Subscribe ::
  "('i \<Rightarrow> string \<times> 'i) \<Rightarrow> string \<Rightarrow> json list \<Rightarrow> chan option \<Rightarrow> 'i world
     \<Rightarrow> (abort \<times> 'i world) + (call \<times> 'i world)" where
  "Subscribe newID subName args d w =
     (let (i, idm) = newID (idManager (client w));
          w1 = w\<lparr>client := (client w)\<lparr>idManager := idm\<rparr>\<rparr>;
          cl = \<lparr>ID = i, ServiceMethod = subName, Args = args, Reply = None, Error = None,
                Done = None\<rparr>
      in case done_chan d w1 of
           Inl a \<Rightarrow> Inl a
         | Inr (ch, w2) \<Rightarrow>
             (let cl' = cl\<lparr>Done := Some ch\<rparr>;
                  w3 = w2\<lparr>client := (client w2)\<lparr>subs := (subs (client w2))(ID cl' \<mapsto> cl')\<rparr>\<rparr>
              in Inr (cl', snd (Send (NewSub (ID cl') subName args) w3))))"

definition Go ::
  "('i \<Rightarrow> string \<times> 'i) \<Rightarrow> string \<Rightarrow> json list \<Rightarrow> chan option \<Rightarrow> 'i world
     \<Rightarrow> (abort \<times> 'i world) + (call \<times> 'i world)" where
  "Go newID serviceMethod args d w =
     (let (i, idm) = newID (idManager (client w));
          w1 = w\<lparr>client := (client w)\<lparr>idManager := idm\<rparr>\<rparr>;
          cl = \<lparr>ID = i, ServiceMethod = serviceMethod, Args = args, Reply = None, Error = None,
                Done = None\<rparr>
      in case done_chan d w1 of
           Inl a \<Rightarrow> Inl a
         | Inr (ch, w2) \<Rightarrow>
             (let cl' = cl\<lparr>Done := Some ch\<rparr>;
                  w3 = w2\<lparr>client := (client w2)\<lparr>calls := (calls (client w2))(ID cl' \<mapsto> cl')\<rparr>\<rparr>
              in Inr (cl', snd (Send (NewMethod (ID cl') serviceMethod args) w3))))"

subsection \<open>Collections\<close>

definition CollectionByName :: "string \<Rightarrow> 'i world \<Rightarrow> collection \<times> 'i world" where
  "CollectionByName name w =
     (case collections (client w) name of
        Some col \<Rightarrow> (col, w)
      | None \<Rightarrow>
          (NewCollection name,
           w\<lparr>client := (client w)\<lparr>collections :=
                (collections (client w))(name \<mapsto> NewCollection name)\<rparr>\<rparr>))"

definition CollectionByNameWithDefault ::
  "string \<Rightarrow> (string \<Rightarrow> collection) \<Rightarrow> 'i world \<Rightarrow> collection \<times> 'i world" where
  "CollectionByNameWithDefault name makeDefault w =
     (case collections (client w) name of
        Some col \<Rightarrow> (col, w)
      | None \<Rightarrow>
          (makeDefault name,
           w\<lparr>client := (client w)\<lparr>collections :=
                (collections (client w))(name \<mapsto> makeDefault name)\<rparr>\<rparr>))"

definition collectionBy :: "message \<Rightarrow> 'i world \<Rightarrow> collection \<times> 'i world" where
  "collectionBy msg w =
     (case msg ''collection'' of
        None \<Rightarrow> (NewMockCollection, w)
      | Some (JString name) \<Rightarrow> CollectionByName name w
      | Some _ \<Rightarrow> (NewMockCollection, w))"

subsection \<open>Connecting and reconnecting\<close>

definition start :: "nat \<Rightarrow> outgoing \<Rightarrow> 'i world \<Rightarrow> 'i world" where
  "start k connect w =
     (let w1 = w\<lparr>client := (client w)\<lparr>ws := Some k\<rparr>\<rparr>;
          w2 = w1\<lparr>goroutines := goroutines w1 @ [InboxWorker k]\<rparr>
      in snd (Send connect w2))"

text \<open>
  \<^verbatim>\<open>NewClient\<close> in a fresh process: \<open>dialed\<close> is what \<^verbatim>\<open>websocket.Dial\<close> returns,
  \<open>idm\<close> what \<^verbatim>\<open>newidManager()\<close> returns, \<open>lnk\<close> the state of the links. Durations
  are in nanoseconds.
\<close>

definition second :: int where
  "second = 1000000000"

definition NewClient ::
  "string \<Rightarrow> string \<Rightarrow> error + nat \<Rightarrow> 'i \<Rightarrow> (nat \<Rightarrow> error option) \<Rightarrow> error + 'i world" where
  "NewClient u orig dialed idm lnk =
     (case dialed of
        Inl err \<Rightarrow> Inl err
      | Inr k \<Rightarrow>
          (let c = \<lparr>HeartbeatInterval = 45 * second, HeartbeatTimeout = 15 * second,
                    ReconnectInterval = 5 * second, reconnects = 0, session = [],
                    version = [], serverID = [], ws = Some k, url = u, origin = orig,
                    pingTimer = None, pings = Map.empty, calls = Map.empty,
                    subs = Map.empty, collections = Map.empty, idManager = idm\<rparr>;
               w = \<lparr>client = c, timers = Map.empty, next_timer = 0, next_chan = 0,
                    link = lnk, json_sends = [], closed = [], dones = [], handled = [],
                    delivered = [], goroutines = [InboxManager]\<rparr>
           in Inr (start k NewConnect w)))"

text \<open>
  \<^verbatim>\<open>for _, v := range m\<close> visits every entry once, in an order Go leaves open: the
  order is a parameter, a list of the keys of \<open>m\<close>.
\<close>

definition range_order :: "('k \<rightharpoonup> 'v) \<Rightarrow> 'k list \<Rightarrow> bool" where
  "range_order m ks \<longleftrightarrow> distinct ks \<and> set ks = dom m"

definition range_values :: "('k \<rightharpoonup> 'v) \<Rightarrow> 'k list \<Rightarrow> 'v list" where
  "range_values m ks = List.map_filter m ks"

definition resend_call :: "call \<Rightarrow> 'i world \<Rightarrow> 'i world" where
  "resend_call cl w = snd (Send (NewMethod (ID cl) (ServiceMethod cl) (Args cl)) w)"

definition resend_sub :: "call \<Rightarrow> 'i world \<Rightarrow> 'i world" where
  "resend_sub sub w = snd (Send (NewSub (ID sub) (ServiceMethod sub) (Args sub)) w)"

definition reset_collection :: "collection \<Rightarrow> 'i world \<Rightarrow> 'i world" where
  "reset_collection col w = deliver col Reset w"

text \<open>
  \<^verbatim>\<open>Reconnect\<close>; \<open>dialed\<close> is what \<^verbatim>\<open>websocket.Dial\<close> returns, \<open>co\<close>, \<open>so\<close> and
  \<open>lo\<close> are the orders of the three \<^verbatim>\<open>range\<close> loops.
\<close>

definition Reconnect ::
  "error + nat \<Rightarrow> string list \<Rightarrow> string list \<Rightarrow> string list \<Rightarrow> 'i world \<Rightarrow> 'i outcome" where
  "Reconnect dialed co so lo w =
     (case Close w of
        Inl a \<Rightarrow> Inl a
      | Inr w1 \<Rightarrow>
          (let w2 = w1\<lparr>client := (client w1)\<lparr>reconnects := reconnects (client w1) + 1\<rparr>\<rparr>
           in case dialed of
                Inl err \<Rightarrow>
                  Inr (snd (AfterFunc (ReconnectInterval (client w2)) RetryReconnect w2))
              | Inr k \<Rightarrow>
                  (let w3 = start k (NewReconnect (session (client w2))) w2;
                       w4 = fold resend_call (range_values (calls (client w3)) co) w3;
                       w5 = fold resend_sub (range_values (subs (client w4)) so) w4;
                       w6 = fold reset_collection
                              (range_values (collections (client w5)) lo) w5
                   in Inr w6)))"

subsection \<open>The inbox manager\<close>

text \<open>
  \<^verbatim>\<open>inboxManager\<close> loops for ever over \<^verbatim>\<open>select\<close>; one turn of the loop is a step
  on the world, \<open>inboxManager_msg\<close> for a message from \<^verbatim>\<open>c.inbox\<close> and
  \<open>inboxManager_err\<close> for an error from \<^verbatim>\<open>c.errors\<close>. Each arm of the
  \<^verbatim>\<open>switch\<close> is a function of its own.
\<close>

definition on_connected :: "message \<Rightarrow> 'i world \<Rightarrow> 'i outcome" where
  "on_connected msg w =
     (let w1 = w\<lparr>client := (client w)\<lparr>version := ''1''\<rparr>\<rparr>
      in case string_of (msg ''session'') of
           Inl a \<Rightarrow> Inl (a, w1)
         | Inr s \<Rightarrow>
             (let w2 = w1\<lparr>client := (client w1)\<lparr>session := s\<rparr>\<rparr>;
                  (t, w3) = AfterFunc (HeartbeatInterval (client w2)) Heartbeat w2
              in Inr (w3\<lparr>client := (client w3)\<lparr>pingTimer := Some t\<rparr>\<rparr>)))"

definition on_failed :: "message \<Rightarrow> 'i world \<Rightarrow> 'i outcome" where
  "on_failed msg w =
     Inl (LogFatal ''IM Failed to connect, we only support version 1'', w)"

definition on_ping :: "message \<Rightarrow> 'i world \<Rightarrow> 'i outcome" where
  "on_ping msg w =
     (case msg ''id'' of
        Some v \<Rightarrow>
          (case string_of (Some v) of
             Inl a \<Rightarrow> Inl (a, w)
           | Inr s \<Rightarrow> Inr (snd (Send (NewPong s) w)))
      | None \<Rightarrow> Inr (snd (Send (NewPong []) w)))"

definition on_pong :: "message \<Rightarrow> 'i world \<Rightarrow> 'i outcome" where
  "on_pong msg w =
     (case (case msg ''id'' of Some v \<Rightarrow> string_of (Some v) | None \<Rightarrow> Inr []) of
        Inl a \<Rightarrow> Inl (a, w)
      | Inr key \<Rightarrow>
          (case pings (client w) key of
             Some (ping # rest) \<Rightarrow>
               (let w1 = (if length key = 0 \<or> length rest > 0
                          then w\<lparr>client := (client w)\<lparr>pings :=
                                  (pings (client w))(key \<mapsto> rest)\<rparr>\<rparr>
                          else w);
                    w2 = stop_timer (timer ping) w1
                in Inr (invoke (handler ping) None w2))
           | _ \<Rightarrow> Inr w))"

definition on_nosub :: "message \<Rightarrow> 'i world \<Rightarrow> 'i outcome" where
  "on_nosub msg w =
     (case msg ''id'' of
        Some v \<Rightarrow>
          (case string_of (Some v) of
             Inl a \<Rightarrow> Inl (a, w)
           | Inr s \<Rightarrow> Inr (w\<lparr>client := (client w)\<lparr>subs := (subs (client w))(s := None)\<rparr>\<rparr>))
      | None \<Rightarrow> Inr w)"

fun ready_subs :: "json list \<Rightarrow> 'i world \<Rightarrow> 'i outcome" where
  "ready_subs [] w = Inr w"
| "ready_subs (v # vs) w =
     (case string_of (Some v) of
        Inl a \<Rightarrow> Inl (a, w)
      | Inr s \<Rightarrow>
          (case subs (client w) s of
             Some cl \<Rightarrow> ready_subs vs (done_call cl w)
           | None \<Rightarrow> ready_subs vs w))"

definition on_ready :: "message \<Rightarrow> 'i world \<Rightarrow> 'i outcome" where
  "on_ready msg w =
     (case msg ''subs'' of
        Some (JArray vs) \<Rightarrow> ready_subs vs w
      | Some _ \<Rightarrow> Inl (TypeAssertionPanic, w)
      | None \<Rightarrow> Inr w)"

definition on_delta :: "(message \<Rightarrow> coll_call) \<Rightarrow> message \<Rightarrow> 'i world \<Rightarrow> 'i outcome" where
  "on_delta ev msg w =
     (let (col, w1) = collectionBy msg w in Inr (deliver col (ev msg) w1))"

text \<open>
  The \<^verbatim>\<open>result\<close> arm. The Call is deleted first; then \<^verbatim>\<open>e.(string)\<close> is asserted
  and the text handed to \<^verbatim>\<open>fmt.Errorf\<close> as its format string, so \<open>Errorf\<close> formats
  the server's text.
\<close>

definition on_result :: "message \<Rightarrow> 'i world \<Rightarrow> 'i outcome" where
  "on_result msg w =
     (case msg ''id'' of
        Some v \<Rightarrow>
          (case string_of (Some v) of
             Inl a \<Rightarrow> Inl (a, w)
           | Inr i \<Rightarrow>
               (case calls (client w) i of
                  Some cl \<Rightarrow>
                    (let w1 = w\<lparr>client := (client w)\<lparr>calls := (calls (client w))(i := None)\<rparr>\<rparr>
                     in case msg ''error'' of
                          Some e \<Rightarrow>
                            (case string_of (Some e) of
                               Inl a \<Rightarrow> Inl (a, w1)
                             | Inr txt \<Rightarrow> Inr (done_call (cl\<lparr>Error := Some (Errorf txt)\<rparr>) w1))
                        | None \<Rightarrow> Inr (done_call (cl\<lparr>Reply := msg ''result''\<rparr>) w1))
                | None \<Rightarrow> Inr w))
      | None \<Rightarrow> Inr w)"

definition on_server_id :: "message \<Rightarrow> 'i world \<Rightarrow> 'i outcome" where
  "on_server_id msg w =
     (case msg ''server_id'' of
        Some (JString s) \<Rightarrow> Inr (w\<lparr>client := (client w)\<lparr>serverID := s\<rparr>\<rparr>)
      | _ \<Rightarrow> Inr w)"

definition inboxManager_msg :: "message \<Rightarrow> 'i world \<Rightarrow> 'i outcome" where
  "inboxManager_msg msg w =
     (case msg ''msg'' of
        Some mtype \<Rightarrow>
          (case string_of (Some mtype) of
             Inl a \<Rightarrow> Inl (a, w)
           | Inr t \<Rightarrow>
               if t = ''connected'' then on_connected msg w
               else if t = ''failed'' then on_failed msg w
               else if t = ''ping'' then on_ping msg w
               else if t = ''pong'' then on_pong msg w
               else if t = ''nosub'' then on_nosub msg w
               else if t = ''ready'' then on_ready msg w
               else if t = ''added'' then on_delta Added msg w
               else if t = ''changed'' then on_delta Changed msg w
               else if t = ''removed'' then on_delta Removed msg w
               else if t = ''addedBefore'' then on_delta AddedBefore msg w
               else if t = ''movedBefore'' then on_delta MovedBefore msg w
               else if t = ''result'' then on_result msg w
               else if t = ''updated'' then Inr w
               else Inr w)
      | None \<Rightarrow> on_server_id msg w)"

definition inboxManager_err :: "error \<Rightarrow> 'i world \<Rightarrow> 'i outcome" where
  "inboxManager_err err w = Inr w"

subsection \<open>Timers firing\<close>

text \<open>
  The runtime runs the function of an armed timer once its duration has passed; when that
  happens is not the client's choice, so the firing of timer \<open>t\<close> is a step of its own.
  A timer that was stopped, or that fired already, does nothing. The three functions are
  the closure of \<^verbatim>\<open>PingPong\<close>, the closure of the \<^verbatim>\<open>connected\<close> arm, and
  \<^verbatim>\<open>c.Reconnect\<close>, which runs as a goroutine of its own.
\<close>

definition run_callback :: "('i \<Rightarrow> string \<times> 'i) \<Rightarrow> callback \<Rightarrow> 'i world \<Rightarrow> 'i outcome" where
  "run_callback newID f w =
     (case f of
        PingTimeout h \<Rightarrow> Inr (invoke h (Some (Errorf ''ping timeout'')) w)
      | Heartbeat \<Rightarrow>
          (if ws (client w) \<noteq> None
           then (let w1 = Ping newID w
                 in timer_Reset (pingTimer (client w1)) (HeartbeatInterval (client w1)) w1)
           else Inr w)
      | RetryReconnect \<Rightarrow> Inr (w\<lparr>goroutines := goroutines w @ [ReconnectTask]\<rparr>))"

definition timer_fires :: "('i \<Rightarrow> string \<times> 'i) \<Rightarrow> nat \<Rightarrow> 'i world \<Rightarrow> 'i outcome" where
  "timer_fires newID t w =
     (case timers w t of
        None \<Rightarrow> Inr w
      | Some tm \<Rightarrow>
          if armed tm
          then run_callback newID (fn tm) (w\<lparr>timers := (timers w)(t \<mapsto> tm\<lparr>armed := False\<rparr>)\<rparr>)
          else Inr w)"

subsection \<open>Runs\<close>

text \<open>The world a step leaves behind, whether it returned or stopped in a panic.\<close>

fun world_of :: "'i outcome \<Rightarrow> 'i world" where
  "world_of (Inl (a, w)) = w"
| "world_of (Inr w) = w"

text \<open>The loop of \<^verbatim>\<open>inboxManager\<close> over the messages that arrive, in order.\<close>

fun inboxManager_run :: "message list \<Rightarrow> 'i world \<Rightarrow> 'i outcome" where
  "inboxManager_run [] w = Inr w"
| "inboxManager_run (m # ms) w =
     (case inboxManager_msg m w of
        Inl a \<Rightarrow> Inl a
      | Inr w1 \<Rightarrow> inboxManager_run ms w1)"

subsection \<open>The synchronous subscription\<close>

text \<open>
  \<^verbatim>\<open>Sub\<close> is \<^verbatim>\<open>Subscribe\<close> on a channel of capacity one, followed by a receive on
  that channel; \<open>Sub_subscribe\<close> is the first half.
\<close>

definition Sub_subscribe ::
  "('i \<Rightarrow> string \<times> 'i) \<Rightarrow> string \<Rightarrow> json list \<Rightarrow> 'i world
     \<Rightarrow> (abort \<times> 'i world) + (call \<times> 'i world)" where
  "Sub_subscribe newID subName args w =
     (let (ch, w1) = make_chan 1 w in Subscribe newID subName args (Some ch) w1)"

text \<open>
  Modelled from the spec: the receive \<^verbatim>\<open><-call.Done\<close> gets what \<^verbatim>\<open>done()\<close>,
  which is declared outside the files at hand, signalled on the Call's completion sink:
  the first Call signalled on that channel, and \<open>None\<close> as long as there is none and
  the receiver stays blocked. \<open>Sub_returns\<close> is what \<^verbatim>\<open>Sub\<close> then returns,
  \<^verbatim>\<open>call.Error\<close>.
\<close>

definition receive_Done :: "call \<Rightarrow> 'i world \<Rightarrow> call option" where
  "receive_Done cl w = find (\<lambda>d. Done d = Done cl) (dones w)"

definition Sub_returns :: "call \<Rightarrow> 'i world \<Rightarrow> error option option" where
  "Sub_returns cl w = map_option Error (receive_Done cl w)"

subsection \<open>Sample sessions and messages\<close>

text \<open>An \<^verbatim>\<open>idManager\<close> that counts and writes the count in unary.\<close>

definition tally_newID :: "nat \<Rightarrow> string \<times> nat" where
  "tally_newID n = (replicate (Suc n) (CHR ''i''), Suc n)"

definition links_up :: "nat \<Rightarrow> error option" where
  "links_up k = None"

text \<open>The world right after \<^verbatim>\<open>NewClient\<close> dialed connection 0.\<close>

definition fresh_session :: "nat world" where
  "fresh_session =
     projr (NewClient ''ws://localhost:3000/websocket'' ''http://localhost'' (Inr 0) 0 links_up)"

definition connected_msg :: "string \<Rightarrow> message" where
  "connected_msg s = [''msg'' \<mapsto> JString ''connected'', ''session'' \<mapsto> JString s]"

definition pong_msg :: "string \<Rightarrow> message" where
  "pong_msg i = [''msg'' \<mapsto> JString ''pong'', ''id'' \<mapsto> JString i]"


definition nosub_msg :: "string \<Rightarrow> string \<Rightarrow> message" where
  "nosub_msg i e = [''msg'' \<mapsto> JString ''nosub'', ''id'' \<mapsto> JString i, ''error'' \<mapsto> JString e]"

definition result_msg :: "string \<Rightarrow> json \<Rightarrow> message" where
  "result_msg i v = [''msg'' \<mapsto> JString ''result'', ''id'' \<mapsto> JString i, ''result'' \<mapsto> v]"

definition result_error_msg :: "string \<Rightarrow> string \<Rightarrow> message" where
  "result_error_msg i e =
     [''msg'' \<mapsto> JString ''result'', ''id'' \<mapsto> JString i, ''error'' \<mapsto> JString e]"

definition added_msg :: "string \<Rightarrow> string \<Rightarrow> message" where
  "added_msg c i =
     [''msg'' \<mapsto> JString ''added'', ''collection'' \<mapsto> JString c, ''id'' \<mapsto> JString i]"

text \<open>The world once the server's \<^verbatim>\<open>connected\<close> has been handled.\<close>

definition live_session :: "nat world" where
  "live_session = world_of (inboxManager_msg (connected_msg ''token'') fresh_session)"

text \<open>A synchronous subscription and an asynchronous call, started on the live session.\<close>

definition sample_sub :: "call \<times> nat world" where
  "sample_sub = projr (Sub_subscribe tally_newID ''stream'' [] live_session)"

definition sample_go :: "call \<times> nat world" where
  "sample_go = projr (Go tally_newID ''echo'' [JString ''x''] None live_session)"

text \<open>A data-delta event that names no collection.\<close>

definition changed_msg :: message where
  "changed_msg = [''msg'' \<mapsto> JString ''changed'', ''id'' \<mapsto> JString ''r1'']"

text \<open>A ping with the id \<^verbatim>\<open>p1\<close>, enrolled on the live session by a caller of \<^verbatim>\<open>PingPong\<close>.\<close>

definition sample_ping :: "nat world" where
  "sample_ping = PingPong ''p1'' (15 * second) (Callback 0) live_session"

text \<open>
  A session with a method call in flight, an active subscription and a collection that
  has received an event.
\<close>

definition busy_session :: "nat world" where
  "busy_session =
     world_of (inboxManager_msg (added_msg ''tasks'' ''r1'')
       (snd (projr (Subscribe tally_newID ''stream'' [] None (snd sample_go)))))"

text \<open>A \<^verbatim>\<open>result\<close> whose \<^verbatim>\<open>error\<close> is an object, as a Meteor server sends it.\<close>

definition result_error_object_msg :: "string \<Rightarrow> message" where
  "result_error_object_msg i =
     [''msg'' \<mapsto> JString ''result'', ''id'' \<mapsto> JString i,
      ''error'' \<mapsto> JObject [(''error'', JNumber 500),
                            (''reason'', JString ''Internal server error'')]]"

section \<open>Properties\<close>

subsection \<open>The sample sessions, evaluated\<close>

lemma fresh_session_eq:
  "fresh_session =
     \<lparr>client =
        \<lparr>HeartbeatInterval = 45000000000, HeartbeatTimeout = 15000000000,
         ReconnectInterval = 5000000000, reconnects = 0, session = [], version = [],
         serverID = [], ws = Some 0, url = ''ws://localhost:3000/websocket'',
         origin = ''http://localhost'', pingTimer = None, pings = Map.empty,
         calls = Map.empty, subs = Map.empty, collections = Map.empty, idManager = 0\<rparr>,
      timers = Map.empty, next_timer = 0, next_chan = 0, link = links_up,
      json_sends = [(0, NewConnect)], closed = [], dones = [], handled = [],
      delivered = [], goroutines = [InboxManager, InboxWorker 0]\<rparr>"
  by (simp add: fresh_session_def NewClient_def start_def Send_def JSON_Send_def second_def)

lemma live_session_eq:
  "live_session =
     \<lparr>client =
        \<lparr>HeartbeatInterval = 45000000000, HeartbeatTimeout = 15000000000,
         ReconnectInterval = 5000000000, reconnects = 0, session = ''token'',
         version = ''1'', serverID = [], ws = Some 0,
         url = ''ws://localhost:3000/websocket'', origin = ''http://localhost'',
         pingTimer = Some 0, pings = Map.empty, calls = Map.empty, subs = Map.empty,
         collections = Map.empty, idManager = 0\<rparr>,
      timers = [0 \<mapsto> \<lparr>after = 45000000000, fn = Heartbeat, armed = True\<rparr>],
      next_timer = 1, next_chan = 0, link = links_up,
      json_sends = [(0, NewConnect)], closed = [], dones = [], handled = [],
      delivered = [], goroutines = [InboxManager, InboxWorker 0]\<rparr>"
  by (simp add: live_session_def fresh_session_eq connected_msg_def inboxManager_msg_def
      on_connected_def AfterFunc_def)

lemma sample_sub_eq:
  "Sub_subscribe tally_newID ''stream'' [] live_session = Inr sample_sub \<and>
   fst sample_sub =
     \<lparr>ID = ''i'', ServiceMethod = ''stream'', Args = [], Reply = None, Error = None,
      Done = Some \<lparr>chan_ref = 0, chan_cap = 1\<rparr>\<rparr> \<and>
   snd sample_sub =
     live_session\<lparr>client := (client live_session)\<lparr>subs := [''i'' \<mapsto> fst sample_sub],
                        idManager := 1\<rparr>,
                   next_chan := 1,
                   json_sends := [(0, NewConnect), (0, NewSub ''i'' ''stream'' [])]\<rparr>"
  by (simp add: sample_sub_def live_session_eq Sub_subscribe_def Subscribe_def make_chan_def
      done_chan_def tally_newID_def Send_def JSON_Send_def Let_def)

lemma sample_go_eq:
  "Go tally_newID ''echo'' [JString ''x''] None live_session = Inr sample_go \<and>
   fst sample_go =
     \<lparr>ID = ''i'', ServiceMethod = ''echo'', Args = [JString ''x''], Reply = None,
      Error = None, Done = Some \<lparr>chan_ref = 0, chan_cap = 10\<rparr>\<rparr> \<and>
   snd sample_go =
     live_session\<lparr>client := (client live_session)\<lparr>calls := [''i'' \<mapsto> fst sample_go],
                        idManager := 1\<rparr>,
                   next_chan := 1,
                   json_sends := [(0, NewConnect), (0, NewMethod ''i'' ''echo'' [JString ''x''])]\<rparr>"
  by (simp add: sample_go_def live_session_eq Go_def make_chan_def
      done_chan_def tally_newID_def Send_def JSON_Send_def Let_def)

lemma sample_ping_eq:
  "sample_ping =
     live_session\<lparr>client := (client live_session)\<lparr>pings :=
                      [''p1'' \<mapsto> [\<lparr>handler = Callback 0, timeout = 15000000000, timer = 1\<rparr>]]\<rparr>,
                   timers := [0 \<mapsto> \<lparr>after = 45000000000, fn = Heartbeat, armed = True\<rparr>,
                              1 \<mapsto> \<lparr>after = 15000000000, fn = PingTimeout (Callback 0),
                                    armed = True\<rparr>],
                   next_timer := 2,
                   json_sends := [(0, NewConnect), (0, NewPing ''p1'')]\<rparr>"
  by (simp add: sample_ping_def live_session_eq PingPong_def Send_def JSON_Send_def links_up_def
      AfterFunc_def second_def)

lemma busy_session_fields:
  "pingTimer (client busy_session) = Some 0"
  "session (client busy_session) = ''token''"
  "calls (client busy_session) =
     [''i'' \<mapsto> \<lparr>ID = ''i'', ServiceMethod = ''echo'', Args = [JString ''x''], Reply = None,
                Error = None, Done = Some \<lparr>chan_ref = 0, chan_cap = 10\<rparr>\<rparr>]"
  "subs (client busy_session) =
     [''ii'' \<mapsto> \<lparr>ID = ''ii'', ServiceMethod = ''stream'', Args = [], Reply = None,
                 Error = None, Done = Some \<lparr>chan_ref = 1, chan_cap = 10\<rparr>\<rparr>]"
  "collections (client busy_session) = [''tasks'' \<mapsto> NewCollection ''tasks'']"
  "json_sends busy_session =
     [(0, NewConnect), (0, NewMethod ''i'' ''echo'' [JString ''x'']),
      (0, NewSub ''ii'' ''stream'' [])]"
  "delivered busy_session = [(NewCollection ''tasks'', Added (added_msg ''tasks'' ''r1''))]"
  by (simp_all add: busy_session_def sample_go_eq live_session_eq Subscribe_def done_chan_def
      make_chan_def tally_newID_def Send_def JSON_Send_def Let_def added_msg_def
      inboxManager_msg_def on_delta_def collectionBy_def CollectionByName_def deliver_def)

subsection \<open>Send on a closed client\<close>

text \<open>
  C10. For every message, when the transport handle \<^verbatim>\<open>c.ws\<close> is nil, \<^verbatim>\<open>Send\<close>
  returns an error (it neither panics nor reports success) and leaves the world as it
  was; and that is the case in every world that \<^verbatim>\<open>Close\<close> returns, since
  \<^verbatim>\<open>Close\<close> sets the handle to nil.
\<close>

theorem Send_on_nil_socket:
  "(ws (client w) = None \<longrightarrow>
      Send msg w = (Some (Errorf ''Tried to send message on a nil socket''), w)) \<and>
   (\<forall>w'. Close w = Inr w' \<longrightarrow>
      Send msg w' = (Some (Errorf ''Tried to send message on a nil socket''), w'))"
  by (auto simp: Send_def Close_def timer_Stop_def split: option.splits)

theorem Send_on_nil_socket_witness:
  "ws (client (world_of (Close live_session))) = None \<and>
   Close live_session = Inr (world_of (Close live_session)) \<and>
   Send (NewPing ''hb'') (world_of (Close live_session)) =
     (Some (Errorf ''Tried to send message on a nil socket''), world_of (Close live_session))"
  using Send_on_nil_socket [of "world_of (Close live_session)" "NewPing ''hb''"]
  by (simp add: live_session_eq Close_def timer_Stop_def stop_timer_def)

subsection \<open>Close\<close>

text \<open>
  Once the heartbeat timer exists, \<^verbatim>\<open>Close\<close> returns, leaves the transport handle
  nil, and a second \<^verbatim>\<open>Close\<close> changes nothing.
\<close>

lemma Close_twice:
  "pingTimer (client w) = Some t \<Longrightarrow>
     \<exists>w1. Close w = Inr w1 \<and> ws (client w1) = None \<and> Close w1 = Inr w1"
  by (auto simp: Close_def timer_Stop_def stop_timer_def split: option.splits)

text \<open>
  C7. The claim is that \<^verbatim>\<open>Close\<close> never fails, on any session. On the session that
  \<^verbatim>\<open>NewClient\<close> returns, before the server's \<^verbatim>\<open>connected\<close> has been handled,
  \<^verbatim>\<open>c.pingTimer\<close> is still nil and \<^verbatim>\<open>c.pingTimer.Stop()\<close> panics; the transport is
  not closed. (\<^verbatim>\<open>inboxWorker\<close> tests \<^verbatim>\<open>c.pingTimer != nil\<close> before it touches the
  timer; \<^verbatim>\<open>Close\<close> does not.)
\<close>

theorem Close_before_connected:
  "pingTimer (client fresh_session) = None \<and>
   Close fresh_session = Inl (NilDereferencePanic, fresh_session)"
  by (simp add: fresh_session_eq Close_def timer_Stop_def)

subsection \<open>nosub\<close>

text \<open>
  The \<^verbatim>\<open>nosub\<close> arm deletes the subscription and does nothing else: no other field of
  the client and no part of the world changes.
\<close>

lemma on_nosub_removes_only:
  "msg ''msg'' = Some (JString ''nosub'') \<Longrightarrow> msg ''id'' = Some (JString s) \<Longrightarrow>
   inboxManager_msg msg w = Inr (w\<lparr>client := (client w)\<lparr>subs := (subs (client w))(s := None)\<rparr>\<rparr>)"
  by (simp add: inboxManager_msg_def on_nosub_def)

text \<open>
  C1. The claim is that a \<^verbatim>\<open>nosub\<close> for a registered subscription signals the
  subscription's completion with the error of the message and removes it, so that a
  synchronous \<^verbatim>\<open>Sub\<close> returns that error. On the subscription that \<^verbatim>\<open>Sub\<close> starts on
  the live session, \<^verbatim>\<open>{msg: nosub, id: i, error: denied}\<close> removes the subscription
  but \<^verbatim>\<open>done()\<close> is never called and \<^verbatim>\<open>Error\<close> is never set: nothing is signalled,
  and the receive in \<^verbatim>\<open>Sub\<close> stays blocked.
\<close>

theorem nosub_leaves_Sub_blocked:
  "subs (client (snd sample_sub)) ''i'' = Some (fst sample_sub) \<and>
   inboxManager_msg (nosub_msg ''i'' ''denied'') (snd sample_sub) =
     Inr ((snd sample_sub)\<lparr>client := (client (snd sample_sub))\<lparr>subs := Map.empty\<rparr>\<rparr>) \<and>
   dones (world_of (inboxManager_msg (nosub_msg ''i'' ''denied'') (snd sample_sub))) = [] \<and>
   Sub_returns (fst sample_sub)
     (world_of (inboxManager_msg (nosub_msg ''i'' ''denied'') (snd sample_sub))) = None"
  using on_nosub_removes_only [of "nosub_msg ''i'' ''denied''" "''i''" "snd sample_sub"]
  by (simp add: nosub_msg_def sample_sub_eq live_session_eq Sub_returns_def receive_Done_def)

text \<open>The \<^verbatim>\<open>ready\<close> arm does call \<^verbatim>\<open>done()\<close>, and \<^verbatim>\<open>Sub\<close> then returns nil.\<close>

lemma ready_lets_Sub_return:
  "Sub_returns (fst sample_sub)
     (world_of (inboxManager_msg [''msg'' \<mapsto> JString ''ready'', ''subs'' \<mapsto> JArray [JString ''i'']]
        (snd sample_sub))) = Some None"
  by (simp add: sample_sub_eq live_session_eq inboxManager_msg_def on_ready_def done_call_def
      Sub_returns_def receive_Done_def)

subsection \<open>result\<close>

text \<open>A text without a percent sign is formatted to itself; a percent sign at the end is not.\<close>

lemma Sprintf_plain:
  "CHR ''%'' \<notin> set s \<Longrightarrow> Sprintf s = s"
  by (induction s) auto

lemma Errorf_percent_at_end:
  "Errorf ''100%'' = ErrorString ''100%!(NOVERB)''"
  by (simp add: Errorf_def directive_def argNumber_def parsenum_def)

text \<open>
  What the \<^verbatim>\<open>result\<close> arm does for a registered id: with an \<^verbatim>\<open>error\<close> string free
  of percent signs the Call is removed and \<^verbatim>\<open>done()\<close> is called on it once, carrying
  that text as its error; with no \<^verbatim>\<open>error\<close> field it carries the \<^verbatim>\<open>result\<close> value.
  For an id that is not registered nothing changes.
\<close>

lemma on_result_plain_error:
  assumes "msg ''msg'' = Some (JString ''result'')" and "msg ''id'' = Some (JString i)"
    and "calls (client w) i = Some cl" and "msg ''error'' = Some (JString e)"
    and "CHR ''%'' \<notin> set e"
  shows "inboxManager_msg msg w =
     Inr (w\<lparr>client := (client w)\<lparr>calls := (calls (client w))(i := None)\<rparr>,
            dones := dones w @ [cl\<lparr>Error := Some (ErrorString e)\<rparr>]\<rparr>)"
  using assms
  by (simp add: inboxManager_msg_def on_result_def done_call_def Errorf_def Sprintf_plain)

lemma on_result_reply:
  assumes "msg ''msg'' = Some (JString ''result'')" and "msg ''id'' = Some (JString i)"
    and "calls (client w) i = Some cl" and "msg ''error'' = None"
  shows "inboxManager_msg msg w =
     Inr (w\<lparr>client := (client w)\<lparr>calls := (calls (client w))(i := None)\<rparr>,
            dones := dones w @ [cl\<lparr>Reply := msg ''result''\<rparr>]\<rparr>)"
  using assms by (simp add: inboxManager_msg_def on_result_def done_call_def)

lemma on_result_unknown_id:
  assumes "msg ''msg'' = Some (JString ''result'')" and "msg ''id'' = Some (JString i)"
    and "calls (client w) i = None"
  shows "inboxManager_msg msg w = Inr w"
  using assms by (simp add: inboxManager_msg_def on_result_def)

text \<open>
  C4. The claim is that a \<^verbatim>\<open>result\<close> for a registered id removes the Call and completes
  it exactly once, with the message's error whenever an \<^verbatim>\<open>error\<close> field is present. On
  the call in flight on the sample session (id \<^verbatim>\<open>i\<close>, nothing completed yet): the error
  text \<^verbatim>\<open>100%\<close> completes the Call with the error \<^verbatim>\<open>100%!(NOVERB)\<close>, not with the
  message's error; and an \<^verbatim>\<open>error\<close> that is an object removes the Call and then panics
  in the type assertion, so that the Call is never completed.
\<close>

theorem result_error_mangled_or_lost:
  "calls (client (snd sample_go)) ''i'' = Some (fst sample_go) \<and>
   dones (snd sample_go) = [] \<and>
   inboxManager_msg (result_error_msg ''i'' ''100%'') (snd sample_go) =
     Inr ((snd sample_go)\<lparr>client := (client (snd sample_go))\<lparr>calls := Map.empty\<rparr>,
            dones := [(fst sample_go)\<lparr>Error := Some (ErrorString ''100%!(NOVERB)'')\<rparr>]\<rparr>) \<and>
   inboxManager_msg (result_error_object_msg ''i'') (snd sample_go) =
     Inl (TypeAssertionPanic,
          (snd sample_go)\<lparr>client := (client (snd sample_go))\<lparr>calls := Map.empty\<rparr>\<rparr>)"
  by (simp add: result_error_msg_def result_error_object_msg_def sample_go_eq live_session_eq
      inboxManager_msg_def on_result_def done_call_def Errorf_percent_at_end)

subsection \<open>Go and Subscribe\<close>

text \<open>
  C8. For \<^verbatim>\<open>Go\<close> and for \<^verbatim>\<open>Subscribe\<close>: with a non-nil \<^verbatim>\<open>done\<close> of capacity 0 the
  operation panics, and at the panic neither registry has changed and nothing has been
  sent; with a nil \<^verbatim>\<open>done\<close> a fresh channel of capacity 10 is made, it is the
  \<^verbatim>\<open>Done\<close> of the returned Call, and the Call is registered under its id.
\<close>

theorem unbuffered_done_panics:
  "(d = Some ch \<and> chan_cap ch = 0 \<longrightarrow>
      (\<exists>w'. Go newID name args d w = Inl (LogPanic ''ddp.rpc: done channel is unbuffered'', w') \<and>
            calls (client w') = calls (client w) \<and> subs (client w') = subs (client w) \<and>
            json_sends w' = json_sends w) \<and>
      (\<exists>w'. Subscribe newID name args d w =
              Inl (LogPanic ''ddp.rpc: done channel is unbuffered'', w') \<and>
            calls (client w') = calls (client w) \<and> subs (client w') = subs (client w) \<and>
            json_sends w' = json_sends w)) \<and>
   (d = None \<longrightarrow>
      (\<exists>cl w'. Go newID name args d w = Inr (cl, w') \<and>
            Done cl = Some \<lparr>chan_ref = next_chan w, chan_cap = 10\<rparr> \<and>
            next_chan w' = Suc (next_chan w) \<and>
            calls (client w') = (calls (client w))(ID cl \<mapsto> cl)) \<and>
      (\<exists>cl w'. Subscribe newID name args d w = Inr (cl, w') \<and>
            Done cl = Some \<lparr>chan_ref = next_chan w, chan_cap = 10\<rparr> \<and>
            next_chan w' = Suc (next_chan w) \<and>
            subs (client w') = (subs (client w))(ID cl \<mapsto> cl)))"
  by (auto simp: Go_def Subscribe_def done_chan_def make_chan_def Send_def JSON_Send_def Let_def
       split: prod.splits option.splits)

theorem unbuffered_done_panics_witness:
  "((\<exists>w'. Go tally_newID ''echo'' [] (Some \<lparr>chan_ref = 7, chan_cap = 0\<rparr>) live_session =
            Inl (LogPanic ''ddp.rpc: done channel is unbuffered'', w') \<and>
          calls (client w') = calls (client live_session) \<and>
          subs (client w') = subs (client live_session) \<and>
          json_sends w' = json_sends live_session) \<and>
    (\<exists>w'. Subscribe tally_newID ''echo'' [] (Some \<lparr>chan_ref = 7, chan_cap = 0\<rparr>) live_session =
            Inl (LogPanic ''ddp.rpc: done channel is unbuffered'', w') \<and>
          calls (client w') = calls (client live_session) \<and>
          subs (client w') = subs (client live_session) \<and>
          json_sends w' = json_sends live_session)) \<and>
   ((\<exists>cl w'. Go tally_newID ''echo'' [] None live_session = Inr (cl, w') \<and>
          Done cl = Some \<lparr>chan_ref = next_chan live_session, chan_cap = 10\<rparr> \<and>
          next_chan w' = Suc (next_chan live_session) \<and>
          calls (client w') = (calls (client live_session))(ID cl \<mapsto> cl)) \<and>
    (\<exists>cl w'. Subscribe tally_newID ''echo'' [] None live_session = Inr (cl, w') \<and>
          Done cl = Some \<lparr>chan_ref = next_chan live_session, chan_cap = 10\<rparr> \<and>
          next_chan w' = Suc (next_chan live_session) \<and>
          subs (client w') = (subs (client live_session))(ID cl \<mapsto> cl)))"
proof -
  have unbuffered: "Some \<lparr>chan_ref = 7, chan_cap = 0\<rparr> = Some \<lparr>chan_ref = 7, chan_cap = 0\<rparr> \<and>
      chan_cap \<lparr>chan_ref = 7, chan_cap = 0\<rparr> = 0"
    by simp
  show ?thesis
    using unbuffered_done_panics [where d = "Some \<lparr>chan_ref = 7, chan_cap = 0\<rparr>"
            and ch = "\<lparr>chan_ref = 7, chan_cap = 0\<rparr>" and newID = tally_newID
            and name = "''echo''" and args = "[]" and w = live_session,
            THEN conjunct1, rule_format, OF unbuffered]
          unbuffered_done_panics [where d = None and newID = tally_newID
            and name = "''echo''" and args = "[]" and w = live_session,
            THEN conjunct2, rule_format, OF refl]
    by (rule conjI)
qed

subsection \<open>Data-delta events\<close>

lemma delta_dispatch:
  "(t, ev) \<in> {(''added'', Added), (''changed'', Changed), (''removed'', Removed),
       (''addedBefore'', AddedBefore), (''movedBefore'', MovedBefore)} \<Longrightarrow>
   msg ''msg'' = Some (JString t) \<Longrightarrow> inboxManager_msg msg w = on_delta ev msg w"
  by (elim insertE emptyE; simp add: inboxManager_msg_def)

lemma on_delta_mock:
  "\<forall>name. msg ''collection'' \<noteq> Some (JString name) \<Longrightarrow>
   on_delta ev msg w = Inr (w\<lparr>delivered := delivered w @ [(NewMockCollection, ev msg)]\<rparr>)"
  by (simp add: on_delta_def collectionBy_def deliver_def split: option.splits json.splits)

lemma on_delta_miss:
  "msg ''collection'' = Some (JString name) \<Longrightarrow> collections (client w) name = None \<Longrightarrow>
   on_delta ev msg w =
     Inr (w\<lparr>client := (client w)\<lparr>collections :=
                (collections (client w))(name \<mapsto> NewCollection name)\<rparr>,
            delivered := delivered w @ [(NewCollection name, ev msg)]\<rparr>)"
  by (simp add: on_delta_def collectionBy_def CollectionByName_def deliver_def)

lemma on_delta_hit:
  "msg ''collection'' = Some (JString name) \<Longrightarrow> collections (client w) name = Some col \<Longrightarrow>
   on_delta ev msg w = Inr (w\<lparr>delivered := delivered w @ [(col, ev msg)]\<rparr>)"
  by (simp add: on_delta_def collectionBy_def CollectionByName_def deliver_def)

text \<open>
  C9, as stated, fails: an \<^verbatim>\<open>added\<close> event for the collection \<^verbatim>\<open>tasks\<close>, which the
  directory of the live session does not hold, registers \<^verbatim>\<open>NewCollection("tasks")\<close> in
  the directory and delivers the event to it, not to a no-op sink.
\<close>

theorem delta_registers_collection:
  "collections (client live_session) ''tasks'' = None \<and>
   collections (client (world_of (inboxManager_msg (added_msg ''tasks'' ''r1'') live_session)))
     ''tasks'' = Some (NewCollection ''tasks'') \<and>
   delivered (world_of (inboxManager_msg (added_msg ''tasks'' ''r1'') live_session)) =
     [(NewCollection ''tasks'', Added (added_msg ''tasks'' ''r1''))]"
  by (simp add: live_session_eq added_msg_def inboxManager_msg_def on_delta_def collectionBy_def
      CollectionByName_def deliver_def)

text \<open>
  C9, amended. For each of the five data-delta events: when the message has no
  \<^verbatim>\<open>collection\<close> field, or one that is not a string, the event goes to
  \<^verbatim>\<open>NewMockCollection()\<close> and nothing else changes; when it names a collection that the
  directory does not hold, \<^verbatim>\<open>NewCollection(name)\<close> is registered under the name and
  receives the event; when the directory holds the collection, that collection receives
  the event and the directory is unchanged.
\<close>

theorem delta_creates_collection:
  assumes "(t, ev) \<in> {(''added'', Added), (''changed'', Changed), (''removed'', Removed),
       (''addedBefore'', AddedBefore), (''movedBefore'', MovedBefore)}"
    and "msg ''msg'' = Some (JString t)"
  shows "((\<forall>name. msg ''collection'' \<noteq> Some (JString name)) \<longrightarrow>
       inboxManager_msg msg w =
         Inr (w\<lparr>delivered := delivered w @ [(NewMockCollection, ev msg)]\<rparr>)) \<and>
   (msg ''collection'' = Some (JString name) \<and> collections (client w) name = None \<longrightarrow>
       inboxManager_msg msg w =
         Inr (w\<lparr>client := (client w)\<lparr>collections :=
                    (collections (client w))(name \<mapsto> NewCollection name)\<rparr>,
                delivered := delivered w @ [(NewCollection name, ev msg)]\<rparr>)) \<and>
   (msg ''collection'' = Some (JString name) \<and> collections (client w) name = Some col \<longrightarrow>
       inboxManager_msg msg w = Inr (w\<lparr>delivered := delivered w @ [(col, ev msg)]\<rparr>))"
proof -
  have d: "inboxManager_msg msg w = on_delta ev msg w"
    using assms by (rule delta_dispatch)
  have mock: "(\<forall>name. msg ''collection'' \<noteq> Some (JString name)) \<longrightarrow>
       on_delta ev msg w =
         Inr (w\<lparr>delivered := delivered w @ [(NewMockCollection, ev msg)]\<rparr>)"
    by (rule impI) (rule on_delta_mock)
  have miss: "msg ''collection'' = Some (JString name) \<and> collections (client w) name = None \<longrightarrow>
       on_delta ev msg w =
         Inr (w\<lparr>client := (client w)\<lparr>collections :=
                    (collections (client w))(name \<mapsto> NewCollection name)\<rparr>,
                delivered := delivered w @ [(NewCollection name, ev msg)]\<rparr>)"
    by (rule impI, erule conjE) (rule on_delta_miss)
  have hit: "msg ''collection'' = Some (JString name) \<and> collections (client w) name = Some col \<longrightarrow>
       on_delta ev msg w = Inr (w\<lparr>delivered := delivered w @ [(col, ev msg)]\<rparr>)"
    by (rule impI, erule conjE) (rule on_delta_hit)
  show ?thesis
    unfolding d by (intro conjI mock miss hit)
qed

theorem delta_creates_collection_witness:
  "inboxManager_msg changed_msg live_session =
     Inr (live_session\<lparr>delivered := [(NewMockCollection, Changed changed_msg)]\<rparr>) \<and>
   inboxManager_msg (added_msg ''tasks'' ''r1'') live_session =
     Inr (live_session\<lparr>client := (client live_session)\<lparr>collections :=
              [''tasks'' \<mapsto> NewCollection ''tasks'']\<rparr>,
            delivered := [(NewCollection ''tasks'', Added (added_msg ''tasks'' ''r1''))]\<rparr>) \<and>
   inboxManager_msg (added_msg ''tasks'' ''r2'')
       (world_of (inboxManager_msg (added_msg ''tasks'' ''r1'') live_session)) =
     Inr (live_session\<lparr>client := (client live_session)\<lparr>collections :=
              [''tasks'' \<mapsto> NewCollection ''tasks'']\<rparr>,
            delivered := [(NewCollection ''tasks'', Added (added_msg ''tasks'' ''r1'')),
                          (NewCollection ''tasks'', Added (added_msg ''tasks'' ''r2''))]\<rparr>)"
proof -
  have a: "inboxManager_msg (added_msg ''tasks'' ''r1'') live_session =
     Inr (live_session\<lparr>client := (client live_session)\<lparr>collections :=
              [''tasks'' \<mapsto> NewCollection ''tasks'']\<rparr>,
            delivered := [(NewCollection ''tasks'', Added (added_msg ''tasks'' ''r1''))]\<rparr>)"
    using delta_creates_collection [where t = "''added''" and ev = Added
            and msg = "added_msg ''tasks'' ''r1''" and w = live_session and name = "''tasks''"]
    by (simp add: added_msg_def live_session_eq)
  have b: "inboxManager_msg changed_msg live_session =
     Inr (live_session\<lparr>delivered := [(NewMockCollection, Changed changed_msg)]\<rparr>)"
    using delta_creates_collection [where t = "''changed''" and ev = Changed
            and msg = changed_msg and w = live_session]
    by (simp add: changed_msg_def live_session_eq)
  have c: "inboxManager_msg (added_msg ''tasks'' ''r2'')
       (world_of (inboxManager_msg (added_msg ''tasks'' ''r1'') live_session)) =
     Inr (live_session\<lparr>client := (client live_session)\<lparr>collections :=
              [''tasks'' \<mapsto> NewCollection ''tasks'']\<rparr>,
            delivered := [(NewCollection ''tasks'', Added (added_msg ''tasks'' ''r1'')),
                          (NewCollection ''tasks'', Added (added_msg ''tasks'' ''r2''))]\<rparr>)"
    unfolding a
    using delta_creates_collection [where t = "''added''" and ev = Added
            and msg = "added_msg ''tasks'' ''r2''" and name = "''tasks''"
            and col = "NewCollection ''tasks''"
            and w = "live_session\<lparr>client := (client live_session)\<lparr>collections :=
              [''tasks'' \<mapsto> NewCollection ''tasks'']\<rparr>,
            delivered := [(NewCollection ''tasks'', Added (added_msg ''tasks'' ''r1''))]\<rparr>"]
    by (simp add: added_msg_def live_session_eq)
  show ?thesis using a b c by simp
qed

subsection \<open>Pings\<close>

lemma invoke_fields [simp]:
  "handled (invoke h e w) = handled w @ [(h, e)]"
  "client (invoke h e w) = client w"
  "timers (invoke h e w) = timers w"
  by (simp_all add: invoke_def Let_def split: handler.splits)

lemma stop_timer_fields [simp]:
  "handled (stop_timer t w) = handled w"
  "client (stop_timer t w) = client w"
  by (simp_all add: stop_timer_def split: option.splits)

text \<open>
  On a client whose send succeeds, \<^verbatim>\<open>PingPong\<close> sends the ping, arms a timer and appends
  the tracker to the bucket of its id.
\<close>

lemma PingPong_enrolls:
  assumes "ws (client w) = Some k" and "link w k = None"
  shows "PingPong pid tmo h w =
     w\<lparr>json_sends := json_sends w @ [(k, NewPing pid)],
       timers := (timers w)(next_timer w \<mapsto> \<lparr>after = tmo, fn = PingTimeout h, armed = True\<rparr>),
       next_timer := next_timer w + 1,
       client := (client w)\<lparr>pings := (pings (client w))(pid \<mapsto>
          (case pings (client w) pid of None \<Rightarrow> [] | Some ps \<Rightarrow> ps) @
          [\<lparr>handler = h, timeout = tmo, timer = next_timer w\<rparr>])\<rparr>\<rparr>"
  using assms by (simp add: PingPong_def Send_def JSON_Send_def AfterFunc_def)

text \<open>The firing of a ping's timer calls the handler with the timeout error, and only that.\<close>

lemma ping_timer_fires:
  assumes "timers w t = Some tm" and "armed tm" and "fn tm = PingTimeout h"
  shows "timer_fires newID t w =
     Inr (invoke h (Some (Errorf ''ping timeout''))
            (w\<lparr>timers := (timers w)(t \<mapsto> tm\<lparr>armed := False\<rparr>)\<rparr>))"
  using assms by (simp add: timer_fires_def run_callback_def)

text \<open>
  For a ping enrolled by \<^verbatim>\<open>PingPong\<close>: as long as its timer is armed (no pong has
  stopped it), the firing of the timer calls the handler with the timeout error, once, and
  leaves every bucket of \<^verbatim>\<open>c.pings\<close> as it was.
\<close>

lemma ping_timeout_fires_handler:
  fixes w :: "'i world" and newID :: "'i \<Rightarrow> string \<times> 'i"
  assumes "ws (client w) = Some k" and "link w k = None"
  shows "pings (client (PingPong pid tmo h w)) pid =
       Some ((case pings (client w) pid of None \<Rightarrow> [] | Some ps \<Rightarrow> ps) @
             [\<lparr>handler = h, timeout = tmo, timer = next_timer w\<rparr>]) \<and>
     timers (PingPong pid tmo h w) (next_timer w) =
       Some \<lparr>after = tmo, fn = PingTimeout h, armed = True\<rparr> \<and>
     (\<forall>(w' :: 'i world) tm. timers w' (next_timer w) = Some tm \<and> armed tm \<and> fn tm = PingTimeout h \<longrightarrow>
        (\<exists>w2. timer_fires newID (next_timer w) w' = Inr w2 \<and>
              handled w2 = handled w' @ [(h, Some (Errorf ''ping timeout''))] \<and>
              pings (client w2) = pings (client w') \<and>
              timers w2 (next_timer w) = Some (tm\<lparr>armed := False\<rparr>)))"
proof (intro conjI allI impI)
  show "pings (client (PingPong pid tmo h w)) pid =
       Some ((case pings (client w) pid of None \<Rightarrow> [] | Some ps \<Rightarrow> ps) @
             [\<lparr>handler = h, timeout = tmo, timer = next_timer w\<rparr>])"
    by (simp add: PingPong_enrolls [OF assms])
  show "timers (PingPong pid tmo h w) (next_timer w) =
       Some \<lparr>after = tmo, fn = PingTimeout h, armed = True\<rparr>"
    by (simp add: PingPong_enrolls [OF assms])
next
  fix w' :: "'i world" and tm
  assume a: "timers w' (next_timer w) = Some tm \<and> armed tm \<and> fn tm = PingTimeout h"
  then have "timer_fires newID (next_timer w) w' =
     Inr (invoke h (Some (Errorf ''ping timeout''))
            (w'\<lparr>timers := (timers w')(next_timer w \<mapsto> tm\<lparr>armed := False\<rparr>)\<rparr>))"
    by (simp add: ping_timer_fires)
  then show "\<exists>w2. timer_fires newID (next_timer w) w' = Inr w2 \<and>
              handled w2 = handled w' @ [(h, Some (Errorf ''ping timeout''))] \<and>
              pings (client w2) = pings (client w') \<and>
              timers w2 (next_timer w) = Some (tm\<lparr>armed := False\<rparr>)"
    by simp
qed

text \<open>
  C2. The claim is that, when no pong arrives in time, the timer fires, the handler is
  called with a timeout error, and the tracker is removed from its bucket. On the sample
  ping \<^verbatim>\<open>p1\<close> the timer (timer 1) is armed; when it fires, the handler is called with
  \<^verbatim>\<open>ping timeout\<close>, but the tracker is still in the bucket \<^verbatim>\<open>p1\<close>.
\<close>

theorem timeout_keeps_tracker:
  "timers sample_ping 1 = Some \<lparr>after = 15000000000, fn = PingTimeout (Callback 0), armed = True\<rparr> \<and>
   handled (world_of (timer_fires tally_newID 1 sample_ping)) =
     [(Callback 0, Some (Errorf ''ping timeout''))] \<and>
   pings (client (world_of (timer_fires tally_newID 1 sample_ping))) ''p1'' =
     Some [\<lparr>handler = Callback 0, timeout = 15000000000, timer = 1\<rparr>]"
  by (simp add: sample_ping_eq live_session_eq timer_fires_def run_callback_def)

text \<open>
  C3. The claim is that the handler of a ping with a non-empty id fires with success or
  with a timeout, never both, and that a second pong with the same id never calls the
  handler again. On the sample ping \<^verbatim>\<open>p1\<close>: two pongs with the id \<^verbatim>\<open>p1\<close> call the
  handler with success twice, and the tracker is still in the bucket afterwards; and a
  pong that arrives after the timer has fired calls the handler with success after it was
  called with the timeout error.
\<close>

theorem pong_fires_handler_again:
  "inboxManager_run [pong_msg ''p1'', pong_msg ''p1''] sample_ping =
     Inr (world_of (inboxManager_run [pong_msg ''p1'', pong_msg ''p1''] sample_ping)) \<and>
   handled (world_of (inboxManager_run [pong_msg ''p1'', pong_msg ''p1''] sample_ping)) =
     [(Callback 0, None), (Callback 0, None)] \<and>
   pings (client (world_of (inboxManager_run [pong_msg ''p1'', pong_msg ''p1''] sample_ping)))
     ''p1'' = Some [\<lparr>handler = Callback 0, timeout = 15000000000, timer = 1\<rparr>] \<and>
   handled (world_of (inboxManager_msg (pong_msg ''p1'')
       (world_of (timer_fires tally_newID 1 sample_ping)))) =
     [(Callback 0, Some (Errorf ''ping timeout'')), (Callback 0, None)]"
  by (simp add: sample_ping_eq live_session_eq pong_msg_def inboxManager_msg_def on_pong_def
      stop_timer_def invoke_def timer_fires_def run_callback_def)




subsection \<open>Reconnect\<close>

lemma fold_resend_call:
  "ws (client w) = Some k \<Longrightarrow>
   fold resend_call cls w =
     w\<lparr>json_sends := json_sends w @
          map (\<lambda>cl. (k, NewMethod (ID cl) (ServiceMethod cl) (Args cl))) cls\<rparr>"
  by (induction cls arbitrary: w) (simp_all add: resend_call_def Send_def JSON_Send_def)

lemma fold_resend_sub:
  "ws (client w) = Some k \<Longrightarrow>
   fold resend_sub cls w =
     w\<lparr>json_sends := json_sends w @
          map (\<lambda>cl. (k, NewSub (ID cl) (ServiceMethod cl) (Args cl))) cls\<rparr>"
  by (induction cls arbitrary: w) (simp_all add: resend_sub_def Send_def JSON_Send_def)

lemma fold_reset_collection:
  "fold reset_collection cols w =
     w\<lparr>delivered := delivered w @ map (\<lambda>col. (col, Reset)) cols\<rparr>"
  by (induction cols arbitrary: w) (simp_all add: reset_collection_def deliver_def)

lemma range_values_visits_all:
  "range_order m ks \<Longrightarrow> m i = Some v \<Longrightarrow> v \<in> set (range_values m ks)"
proof -
  assume o: "range_order m ks" and v: "m i = Some v"
  from o v have "i \<in> set ks"
    by (auto simp: range_order_def)
  with v have "i \<in> set (filter (\<lambda>x. m x \<noteq> None) ks)" and "(the \<circ> m) i = v"
    by simp_all
  then show ?thesis
    unfolding range_values_def List.map_filter_def by (metis image_eqI set_map)
qed

lemma Close_with_timer:
  "pingTimer (client w) = Some t \<Longrightarrow>
   Close w = Inr ((stop_timer t w)\<lparr>closed := closed w @ (case ws (client w) of None \<Rightarrow> [] | Some c \<Rightarrow> [c]),
                    client := (client w)\<lparr>ws := None\<rparr>\<rparr>)"
  by (simp add: Close_def timer_Stop_def stop_timer_def split: option.splits)

text \<open>
  What \<^verbatim>\<open>Reconnect\<close> does once \<^verbatim>\<open>Close\<close> has returned and the dial has succeeded: the
  resume request, then one \<^verbatim>\<open>method\<close> per Call and one \<^verbatim>\<open>sub\<close> per subscription, in
  the order of the loops, are handed to \<^verbatim>\<open>websocket.JSON.Send\<close> on the new connection,
  and every collection gets one \<^verbatim>\<open>Reset\<close>.
\<close>

lemma Reconnect_trace:
  assumes "pingTimer (client w) = Some t"
  shows "\<exists>w'. Reconnect (Inr k) co so lo w = Inr w' \<and>
     ws (client w') = Some k \<and>
     calls (client w') = calls (client w) \<and> subs (client w') = subs (client w) \<and>
     collections (client w') = collections (client w) \<and>
     reconnects (client w') = reconnects (client w) + 1 \<and>
     json_sends w' = json_sends w @ (k, NewReconnect (session (client w))) #
        map (\<lambda>cl. (k, NewMethod (ID cl) (ServiceMethod cl) (Args cl)))
          (range_values (calls (client w)) co) @
        map (\<lambda>cl. (k, NewSub (ID cl) (ServiceMethod cl) (Args cl)))
          (range_values (subs (client w)) so) \<and>
     delivered w' = delivered w @
        map (\<lambda>col. (col, Reset)) (range_values (collections (client w)) lo)"
  by (simp add: Reconnect_def Close_with_timer [OF assms] start_def Send_def JSON_Send_def
      fold_resend_call [where k = k] fold_resend_sub [where k = k] fold_reset_collection
      stop_timer_def Let_def split: option.splits)

text \<open>Without a heartbeat timer, \<^verbatim>\<open>Reconnect\<close> panics in \<^verbatim>\<open>Close\<close>, before it dials.\<close>

lemma Reconnect_needs_timer:
  "pingTimer (client w) = None \<Longrightarrow> Reconnect dialed co so lo w = Inl (NilDereferencePanic, w)"
  by (simp add: Reconnect_def Close_def timer_Stop_def)

text \<open>
  C5. Whatever the order of the three \<^verbatim>\<open>range\<close> loops: when \<^verbatim>\<open>Reconnect\<close> gets as
  far as the dial (which it does whenever the heartbeat timer exists) and the dial
  succeeds with connection \<open>k\<close>, it returns, and in the world it returns the client is
  on connection \<open>k\<close>; for every Call of \<^verbatim>\<open>c.calls\<close> a \<^verbatim>\<open>method\<close> message with the
  Call's id, method and args, and for every subscription of \<^verbatim>\<open>c.subs\<close> a \<^verbatim>\<open>sub\<close>
  message with its id, name and args, were handed to \<^verbatim>\<open>websocket.JSON.Send\<close> on
  connection \<open>k\<close> during the reconnect; every collection of \<^verbatim>\<open>c.collections\<close> got a
  \<^verbatim>\<open>Reset\<close>; and both registries are what they were, so they hold the same ids.
\<close>

theorem Reconnect_replays:
  fixes w :: "'i world"
  assumes co: "range_order (calls (client w)) co"
    and so: "range_order (subs (client w)) so"
    and lo: "range_order (collections (client w)) lo"
  shows "(pingTimer (client w) \<noteq> None \<longrightarrow> (\<exists>w'. Reconnect (Inr k) co so lo w = Inr w')) \<and>
   (\<forall>w'. Reconnect (Inr k) co so lo w = Inr w' \<longrightarrow>
     ws (client w') = Some k \<and>
     (\<forall>i cl. calls (client w) i = Some cl \<longrightarrow>
        (k, NewMethod (ID cl) (ServiceMethod cl) (Args cl))
          \<in> set (drop (length (json_sends w)) (json_sends w'))) \<and>
     (\<forall>i sub. subs (client w) i = Some sub \<longrightarrow>
        (k, NewSub (ID sub) (ServiceMethod sub) (Args sub))
          \<in> set (drop (length (json_sends w)) (json_sends w'))) \<and>
     (\<forall>n col. collections (client w) n = Some col \<longrightarrow>
        (col, Reset) \<in> set (drop (length (delivered w)) (delivered w'))) \<and>
     calls (client w') = calls (client w) \<and> subs (client w') = subs (client w) \<and>
     dom (calls (client w')) = dom (calls (client w)) \<and>
     dom (subs (client w')) = dom (subs (client w)))"
proof (rule conjI)
  show "pingTimer (client w) \<noteq> None \<longrightarrow> (\<exists>w'. Reconnect (Inr k) co so lo w = Inr w')"
  proof (rule impI)
    assume "pingTimer (client w) \<noteq> None"
    then obtain t where "pingTimer (client w) = Some t"
      by blast
    from Reconnect_trace [OF this, of k co so lo]
    show "\<exists>w'. Reconnect (Inr k) co so lo w = Inr w'"
      by blast
  qed
next
  show "\<forall>w'. Reconnect (Inr k) co so lo w = Inr w' \<longrightarrow>
     ws (client w') = Some k \<and>
     (\<forall>i cl. calls (client w) i = Some cl \<longrightarrow>
        (k, NewMethod (ID cl) (ServiceMethod cl) (Args cl))
          \<in> set (drop (length (json_sends w)) (json_sends w'))) \<and>
     (\<forall>i sub. subs (client w) i = Some sub \<longrightarrow>
        (k, NewSub (ID sub) (ServiceMethod sub) (Args sub))
          \<in> set (drop (length (json_sends w)) (json_sends w'))) \<and>
     (\<forall>n col. collections (client w) n = Some col \<longrightarrow>
        (col, Reset) \<in> set (drop (length (delivered w)) (delivered w'))) \<and>
     calls (client w') = calls (client w) \<and> subs (client w') = subs (client w) \<and>
     dom (calls (client w')) = dom (calls (client w)) \<and>
     dom (subs (client w')) = dom (subs (client w))"
  proof (intro allI impI)
  fix w' :: "'i world"
  assume ret: "Reconnect (Inr k) co so lo w = Inr w'"
  then obtain t where timer: "pingTimer (client w) = Some t"
    using Reconnect_needs_timer [of w "Inr k" co so lo] by (cases "pingTimer (client w)") auto
  from Reconnect_trace [OF timer, of k co so lo] ret have
    r: "ws (client w') = Some k"
      "calls (client w') = calls (client w)" "subs (client w') = subs (client w)"
    and sends: "json_sends w' = json_sends w @ (k, NewReconnect (session (client w))) #
        map (\<lambda>cl. (k, NewMethod (ID cl) (ServiceMethod cl) (Args cl)))
          (range_values (calls (client w)) co) @
        map (\<lambda>cl. (k, NewSub (ID cl) (ServiceMethod cl) (Args cl)))
          (range_values (subs (client w)) so)"
    and resets: "delivered w' = delivered w @
        map (\<lambda>col. (col, Reset)) (range_values (collections (client w)) lo)"
    by auto
  have c: "(k, NewMethod (ID cl) (ServiceMethod cl) (Args cl))
          \<in> set (drop (length (json_sends w)) (json_sends w'))"
    if "calls (client w) i = Some cl" for i cl
    using range_values_visits_all [OF co that] by (simp add: sends)
  have s: "(k, NewSub (ID sub) (ServiceMethod sub) (Args sub))
          \<in> set (drop (length (json_sends w)) (json_sends w'))"
    if "subs (client w) i = Some sub" for i sub
    using range_values_visits_all [OF so that] by (simp add: sends)
  have l: "(col, Reset) \<in> set (drop (length (delivered w)) (delivered w'))"
    if "collections (client w) n = Some col" for n col
    using range_values_visits_all [OF lo that] by (simp add: resets)
  show "ws (client w') = Some k \<and>
     (\<forall>i cl. calls (client w) i = Some cl \<longrightarrow>
        (k, NewMethod (ID cl) (ServiceMethod cl) (Args cl))
          \<in> set (drop (length (json_sends w)) (json_sends w'))) \<and>
     (\<forall>i sub. subs (client w) i = Some sub \<longrightarrow>
        (k, NewSub (ID sub) (ServiceMethod sub) (Args sub))
          \<in> set (drop (length (json_sends w)) (json_sends w'))) \<and>
     (\<forall>n col. collections (client w) n = Some col \<longrightarrow>
        (col, Reset) \<in> set (drop (length (delivered w)) (delivered w'))) \<and>
     calls (client w') = calls (client w) \<and> subs (client w') = subs (client w) \<and>
     dom (calls (client w')) = dom (calls (client w)) \<and>
     dom (subs (client w')) = dom (subs (client w))"
    using r c s l by simp
  qed
qed

theorem Reconnect_replays_witness:
  "pingTimer (client busy_session) = Some 0 \<and>
   range_order (calls (client busy_session)) [''i''] \<and>
   range_order (subs (client busy_session)) [''ii''] \<and>
   range_order (collections (client busy_session)) [''tasks''] \<and>
   (\<exists>w'. Reconnect (Inr 1) [''i''] [''ii''] [''tasks''] busy_session = Inr w' \<and>
      ws (client w') = Some 1 \<and>
      (1, NewMethod ''i'' ''echo'' [JString ''x''])
         \<in> set (drop (length (json_sends busy_session)) (json_sends w')) \<and>
      (1, NewSub ''ii'' ''stream'' [])
         \<in> set (drop (length (json_sends busy_session)) (json_sends w')) \<and>
      (NewCollection ''tasks'', Reset)
         \<in> set (drop (length (delivered busy_session)) (delivered w')) \<and>
      dom (calls (client w')) = {''i''} \<and> dom (subs (client w')) = {''ii''})"
proof -
  have t: "pingTimer (client busy_session) = Some 0"
    by (simp add: busy_session_fields)
  have co: "range_order (calls (client busy_session)) [''i'']"
    by (simp add: busy_session_fields range_order_def)
  have so: "range_order (subs (client busy_session)) [''ii'']"
    by (simp add: busy_session_fields range_order_def)
  have lo: "range_order (collections (client busy_session)) [''tasks'']"
    by (simp add: busy_session_fields range_order_def)
  note inst = Reconnect_replays [OF co so lo, of 1]
  from inst t obtain w' where
    ret: "Reconnect (Inr 1) [''i''] [''ii''] [''tasks''] busy_session = Inr w'"
    by auto
  from inst ret have
    r: "ws (client w') = Some 1"
      "\<forall>i cl. calls (client busy_session) i = Some cl \<longrightarrow>
        (1, NewMethod (ID cl) (ServiceMethod cl) (Args cl))
          \<in> set (drop (length (json_sends busy_session)) (json_sends w'))"
      "\<forall>i sub. subs (client busy_session) i = Some sub \<longrightarrow>
        (1, NewSub (ID sub) (ServiceMethod sub) (Args sub))
          \<in> set (drop (length (json_sends busy_session)) (json_sends w'))"
      "\<forall>n col. collections (client busy_session) n = Some col \<longrightarrow>
        (col, Reset) \<in> set (drop (length (delivered busy_session)) (delivered w'))"
      "dom (calls (client w')) = dom (calls (client busy_session))"
      "dom (subs (client w')) = dom (subs (client busy_session))"
    by blast+
  have c: "(1, NewMethod ''i'' ''echo'' [JString ''x''])
         \<in> set (drop (length (json_sends busy_session)) (json_sends w'))"
    using r(2) [rule_format, of "''i''"] by (simp add: busy_session_fields(3))
  have s: "(1, NewSub ''ii'' ''stream'' [])
         \<in> set (drop (length (json_sends busy_session)) (json_sends w'))"
    using r(3) [rule_format, of "''ii''"] by (simp add: busy_session_fields(4))
  have l: "(NewCollection ''tasks'', Reset)
         \<in> set (drop (length (delivered busy_session)) (delivered w'))"
    using r(4) [rule_format, of "''tasks''"] by (simp add: busy_session_fields(5))
  have d: "dom (calls (client w')) = {''i''}" "dom (subs (client w')) = {''ii''}"
    using r(5) r(6) by (simp_all add: busy_session_fields)
  show ?thesis
    using t co so lo ret r(1) c s l d by blast
qed

end
